theory Spec2Isabelle
  imports Main
begin

section \<open>The header as the preprocessor sees it\<close>

text \<open>
  \<^verbatim>\<open>source/orangeom/orangeom_globals.hpp\<close> consists of preprocessor directives only.
  A token of a replacement list is a string; a directive that survives conditional
  inclusion is one of the four forms below. The conditional directives themselves
  (\<^verbatim>\<open>#ifdef\<close>, \<^verbatim>\<open>#ifndef\<close>, \<^verbatim>\<open>#else\<close>) are translated to \<open>if\<close> over the
  set \<open>D\<close> of macro names that are defined where the conditional is evaluated.
  Included files are recorded, not read.
\<close>

type_synonym token = string

datatype directive =
    Include string
  | Define string "token list"
  | Define_fn string "string list" "token list"
  | Pragma_comment_lib string

text \<open>Lines 6 to 23: export visibility.\<close>

definition visibility_block :: "string set \<Rightarrow> directive list" where
  "visibility_block D =
    (if ''_MSC_VER'' \<in> D then
       (if ''ORANGEOM_EXPORTS'' \<in> D then
          [Define ''ORANGEOM_API'' [''__declspec'', ''('', ''dllexport'', '')''],
           Define ''EXPIMP_TEMPLATE'' []]
        else
          [Define ''ORANGEOM_API'' [''__declspec'', ''('', ''dllimport'', '')''],
           Define ''EXPIMP_TEMPLATE'' [''extern'']] @
          (if ''_DEBUG'' \<in> D then [Pragma_comment_lib ''orange_d.lib'']
           else [Pragma_comment_lib ''orange.lib'']))
     else
       [Define ''ORANGEOM_API'' [],
        Define ''EXPIMP_TEMPLATE'' []])"

text \<open>Lines 25 and 26: the wrapper macros.\<close>

definition wrapper_block :: "directive list" where
  "wrapper_block =
    [Define_fn ''OMWRAPPER'' [''x'']
       [''BASIC_WRAPPER'', ''('', ''x'', '','', ''ORANGENE_API'', '')''],
     Define_fn ''OMVWRAPPER'' [''x'']
       [''BASIC_VWRAPPER'', ''('', ''x'', '','', ''ORANGENE_API'', '')'']]"

text \<open>Lines 31 to 40: the exception-translation macros.\<close>

definition exception_block :: "directive list" where
  "exception_block =
    [Define ''PyTRY'' [''try'', ''{''],
     Define ''PYNULL'' [''('', ''('', ''PyObject'', ''*'', '')'', ''NULL'', '')''],
     Define ''PyCATCH'' [''PyCATCH_r'', ''('', ''PYNULL'', '')''],
     Define ''PyCATCH_1'' [''PyCATCH_r'', ''('', ''-'', ''1'', '')''],
     Define_fn ''PyCATCH_r'' [''r'']
       [''}'',
        ''catch'', ''('', ''pyexception'', ''err'', '')'',
          ''{'', ''err'', ''.'', ''restore'', ''('', '')'', '';'',
                 ''return'', ''r'', '';'', ''}'',
        ''catch'', ''('', ''mlexception'', ''err'', '')'',
          ''{'', ''PYERROR'', ''('', ''PyExc_OrangeKernel'', '','',
                 ''err'', ''.'', ''what'', ''('', '')'', '','', ''r'', '')'', '';'', ''}'']]"

text \<open>The whole header, behind its include guard (lines 1, 2 and 42).\<close>

definition orangeom_globals :: "string set \<Rightarrow> directive list" where
  "orangeom_globals D =
    (if ''__ORANGEOM_GLOBALS'' \<in> D then []
     else
       [Define ''__ORANGEOM_GLOBALS'' [],
        Include ''garbage.hpp''] @
       visibility_block D @
       wrapper_block @
       [Include ''../pyxtract/pyxtract_macros.hpp''] @
       exception_block)"

subsection \<open>Reading a list of directives\<close>

fun object_macro :: "directive list \<Rightarrow> string \<Rightarrow> token list option" where
  "object_macro [] n = None"
| "object_macro (Define m body # ds) n = (if m = n then Some body else object_macro ds n)"
| "object_macro (d # ds) n = object_macro ds n"

fun function_macro :: "directive list \<Rightarrow> string \<Rightarrow> (string list \<times> token list) option" where
  "function_macro [] n = None"
| "function_macro (Define_fn m ps body # ds) n =
     (if m = n then Some (ps, body) else function_macro ds n)"
| "function_macro (d # ds) n = function_macro ds n"

fun defined_names :: "directive list \<Rightarrow> string list" where
  "defined_names [] = []"
| "defined_names (Define m body # ds) = m # defined_names ds"
| "defined_names (Define_fn m ps body # ds) = m # defined_names ds"
| "defined_names (d # ds) = defined_names ds"

fun linked_libraries :: "directive list \<Rightarrow> string list" where
  "linked_libraries [] = []"
| "linked_libraries (Pragma_comment_lib l # ds) = l # linked_libraries ds"
| "linked_libraries (d # ds) = linked_libraries ds"

text \<open>
  One expansion step of a function-like macro: every token of the replacement list that
  is a parameter is replaced by the tokens of the matching argument, the other tokens
  stay. The result is not rescanned here.
\<close>

definition substitute :: "(string \<times> token list) list \<Rightarrow> token list \<Rightarrow> token list" where
  "substitute env body =
     concat (map (\<lambda>t. case map_of env t of Some arg \<Rightarrow> arg | None \<Rightarrow> [t]) body)"

definition invoke :: "directive list \<Rightarrow> string \<Rightarrow> token list list \<Rightarrow> token list option" where
  "invoke ds n args =
     (case function_macro ds n of
        None \<Rightarrow> None
      | Some (ps, body) \<Rightarrow>
          if length ps = length args then Some (substitute (zip ps args) body) else None)"

section \<open>The guarded region at run time\<close>

text \<open>
  \<^verbatim>\<open>PyTRY\<close> opens a \<^verbatim>\<open>try\<close> block and \<^verbatim>\<open>PyCATCH_r(r)\<close> closes it with two handlers.
  A statement runs on the host state \<open>'h\<close> and either completes (\<open>Normal\<close>), leaves the
  enclosing function with a value (\<open>Return\<close>) or raises (\<open>Throw\<close>).
\<close>

datatype ('r, 'x) outcome = Normal | Return 'r | Throw 'x

text \<open>
  The two exception classes are declared elsewhere; the header uses one member function
  of each: \<^verbatim>\<open>err.restore()\<close>, which acts on the host error state, and \<^verbatim>\<open>err.what()\<close>,
  which yields the message text. A thrown object matches the first handler, the second
  handler, or neither.
\<close>

record 'h pyexception =
  restore :: "'h \<Rightarrow> 'h"

record mlexception =
  what :: string

datatype ('h, 'o) thrown =
    Thrown_pyexception "'h pyexception"
  | Thrown_mlexception mlexception
  | Thrown_other 'o

type_synonym ('h, 'r, 'o) stmt = "'h \<Rightarrow> 'h \<times> ('r, ('h, 'o) thrown) outcome"

text \<open>
  The host's error categories. Only \<^verbatim>\<open>PyExc_OrangeKernel\<close> is named by the header.
\<close>

datatype error_category = PyExc_OrangeKernel | PyExc_other string

text \<open>
  A block runs its statements in order and stops at the first one that does not
  complete normally.
\<close>

fun exec_block :: "('h, 'r, 'o) stmt list \<Rightarrow> ('h, 'r, 'o) stmt" where
  "exec_block [] h = (h, Normal)"
| "exec_block (s # ss) h =
     (case s h of
        (h', Normal) \<Rightarrow> exec_block ss h'
      | (h', Return v) \<Rightarrow> (h', Return v)
      | (h', Throw e) \<Rightarrow> (h', Throw e))"

definition throw_stmt :: "('h, 'o) thrown \<Rightarrow> ('h, 'r, 'o) stmt" where
  "throw_stmt e h = (h, Throw e)"

definition return_stmt :: "'r \<Rightarrow> ('h, 'r, 'o) stmt" where
  "return_stmt v h = (h, Return v)"

definition update_stmt :: "('h \<Rightarrow> 'h) \<Rightarrow> ('h, 'r, 'o) stmt" where
  "update_stmt f h = (f h, Normal)"

text \<open>
  \<^verbatim>\<open>PyTRY body PyCATCH_r(r)\<close>, lines 31 and 37 to 40. The macro \<^verbatim>\<open>PYERROR\<close> comes from
  \<^verbatim>\<open>../pyxtract/pyxtract_macros.hpp\<close>; it is the parameter \<open>pyerror\<close>, a statement made
  from an error category, a message and a result.
\<close>

definition PyCATCH_r ::
  "(error_category \<Rightarrow> string \<Rightarrow> 'r \<Rightarrow> ('h, 'r, 'o) stmt) \<Rightarrow> 'r \<Rightarrow>
     ('h, 'r, 'o) stmt \<Rightarrow> ('h, 'r, 'o) stmt" where
  "PyCATCH_r pyerror r body h =
     (case body h of
        (h', Normal) \<Rightarrow> (h', Normal)
      | (h', Return v) \<Rightarrow> (h', Return v)
      | (h', Throw (Thrown_pyexception err)) \<Rightarrow> (restore err h', Return r)
      | (h', Throw (Thrown_mlexception err)) \<Rightarrow> pyerror PyExc_OrangeKernel (what err) r h'
      | (h', Throw (Thrown_other x)) \<Rightarrow> (h', Throw (Thrown_other x)))"

text \<open>Lines 33 to 35: the two forms with a fixed sentinel.\<close>

datatype 'p PyObject_ptr = NULL | Object 'p

definition PYNULL :: "'p PyObject_ptr" where
  "PYNULL = NULL"

definition PyCATCH ::
  "(error_category \<Rightarrow> string \<Rightarrow> 'p PyObject_ptr \<Rightarrow> ('h, 'p PyObject_ptr, 'o) stmt) \<Rightarrow>
     ('h, 'p PyObject_ptr, 'o) stmt \<Rightarrow> ('h, 'p PyObject_ptr, 'o) stmt" where
  "PyCATCH pyerror = PyCATCH_r pyerror PYNULL"

definition PyCATCH_1 ::
  "(error_category \<Rightarrow> string \<Rightarrow> int \<Rightarrow> ('h, int, 'o) stmt) \<Rightarrow>
     ('h, int, 'o) stmt \<Rightarrow> ('h, int, 'o) stmt" where
  "PyCATCH_1 pyerror = PyCATCH_r pyerror (- 1)"

text \<open>
  Modelled from the spec: the host error state that \<^verbatim>\<open>PYERROR\<close> writes, "a host-level
  error state set as a side effect"; it holds the pending error, a category with a
  message text, or none.
\<close>

record host =
  error_indicator :: "(error_category \<times> string) option"

text \<open>
  Modelled from the spec: the macro \<^verbatim>\<open>PYERROR\<close> of \<^verbatim>\<open>../pyxtract/pyxtract_macros.hpp\<close>,
  which the header includes and which is not part of the sources at hand. The spec
  describes its use as "a generic-error report carrying a fixed error category and the
  failure's message text, also returning a caller-supplied sentinel value": the host
  error state becomes the pair of category and message, and the enclosing function
  returns the result.
\<close>

definition PYERROR :: "error_category \<Rightarrow> string \<Rightarrow> 'r \<Rightarrow> (host, 'r, 'o) stmt" where
  "PYERROR category message result h =
     (h\<lparr>error_indicator := Some (category, message)\<rparr>, Return result)"

text \<open>
  The types named by the handlers of a replacement list, in order: the token after
  each \<^verbatim>\<open>catch (\<close>. A catch-all handler would show as \<^verbatim>\<open>...\<close>.
\<close>

fun handler_types :: "token list \<Rightarrow> token list" where
  "handler_types (c # p # t # ts) =
     (if c = ''catch'' \<and> p = ''('' then t # handler_types ts else handler_types (p # t # ts))"
| "handler_types ts = []"

section \<open>Properties of the preprocessor view\<close>

text \<open>
  Claim C6. As a function of \<^verbatim>\<open>_MSC_VER\<close> and \<^verbatim>\<open>ORANGEOM_EXPORTS\<close>, the macro
  \<^verbatim>\<open>ORANGEOM_API\<close> is one of three annotations: \<^verbatim>\<open>__declspec(dllexport)\<close> when both are
  defined, \<^verbatim>\<open>__declspec(dllimport)\<close> when only \<^verbatim>\<open>_MSC_VER\<close> is, and empty otherwise;
  exactly in the dllimport mode one library is requested for linking.
\<close>

theorem ORANGEOM_API_three_way:
  "object_macro (visibility_block D) ''ORANGEOM_API'' =
     Some (if ''_MSC_VER'' \<in> D \<and> ''ORANGEOM_EXPORTS'' \<in> D
             then [''__declspec'', ''('', ''dllexport'', '')'']
           else if ''_MSC_VER'' \<in> D \<and> ''ORANGEOM_EXPORTS'' \<notin> D
             then [''__declspec'', ''('', ''dllimport'', '')'']
           else [])
   \<and> length (linked_libraries (visibility_block D)) =
        (if ''_MSC_VER'' \<in> D \<and> ''ORANGEOM_EXPORTS'' \<notin> D then 1 else 0)"
  by (simp add: visibility_block_def)

theorem ORANGEOM_API_three_way_witness:
  "object_macro (visibility_block {''_MSC_VER'', ''_DEBUG''}) ''ORANGEOM_API'' =
     Some [''__declspec'', ''('', ''dllimport'', '')'']
   \<and> length (linked_libraries (visibility_block {''_MSC_VER'', ''_DEBUG''})) = 1"
  using ORANGEOM_API_three_way [of "{''_MSC_VER'', ''_DEBUG''}"] by simp

text \<open>
  Claim C10. In the dllimport mode the requested library is \<^verbatim>\<open>orange_d.lib\<close> when
  \<^verbatim>\<open>_DEBUG\<close> is defined and \<^verbatim>\<open>orange.lib\<close> otherwise; in every other mode no library is
  requested.
\<close>

theorem linked_library_by_DEBUG:
  "linked_libraries (visibility_block D) =
     (if ''_MSC_VER'' \<in> D \<and> ''ORANGEOM_EXPORTS'' \<notin> D
        then [if ''_DEBUG'' \<in> D then ''orange_d.lib'' else ''orange.lib'']
      else [])"
  by (simp add: visibility_block_def)

theorem linked_library_by_DEBUG_witness:
  "linked_libraries (visibility_block {''_MSC_VER'', ''_DEBUG''}) = [''orange_d.lib'']
   \<and> linked_libraries (visibility_block {''_MSC_VER''}) = [''orange.lib'']
   \<and> linked_libraries (visibility_block {''_MSC_VER'', ''ORANGEOM_EXPORTS'', ''_DEBUG''}) = []
   \<and> linked_libraries (visibility_block {''_DEBUG''}) = []"
  using linked_library_by_DEBUG [of "{''_MSC_VER'', ''_DEBUG''}"]
    linked_library_by_DEBUG [of "{''_MSC_VER''}"]
    linked_library_by_DEBUG [of "{''_MSC_VER'', ''ORANGEOM_EXPORTS'', ''_DEBUG''}"]
    linked_library_by_DEBUG [of "{''_DEBUG''}"]
  by simp

text \<open>
  Claim C7. For every argument \<open>x\<close>, \<^verbatim>\<open>OMWRAPPER(x)\<close> expands to
  \<^verbatim>\<open>BASIC_WRAPPER(x, ORANGENE_API)\<close> and \<^verbatim>\<open>OMVWRAPPER(x)\<close> to
  \<^verbatim>\<open>BASIC_VWRAPPER(x, ORANGENE_API)\<close>. The token \<^verbatim>\<open>ORANGENE_API\<close> is not
  \<^verbatim>\<open>ORANGEOM_API\<close>, which the visibility block always defines, and no configuration
  of the header defines it.
\<close>

theorem OMWRAPPER_expansion:
  "invoke wrapper_block ''OMWRAPPER'' [x] =
     Some ([''BASIC_WRAPPER'', ''(''] @ x @ ['','', ''ORANGENE_API'', '')''])
   \<and> invoke wrapper_block ''OMVWRAPPER'' [x] =
     Some ([''BASIC_VWRAPPER'', ''(''] @ x @ ['','', ''ORANGENE_API'', '')''])
   \<and> ''ORANGENE_API'' \<noteq> ''ORANGEOM_API''
   \<and> ''ORANGEOM_API'' \<in> set (defined_names (visibility_block D))
   \<and> ''ORANGENE_API'' \<notin> set (defined_names (orangeom_globals D))"
  by (simp add: invoke_def wrapper_block_def substitute_def orangeom_globals_def
      visibility_block_def exception_block_def)


section \<open>Properties of the guarded region\<close>

subsection \<open>Blocks stop at the first failure\<close>

lemma exec_block_append:
  "exec_block (xs @ ys) h =
     (case exec_block xs h of
        (h', Normal) \<Rightarrow> exec_block ys h'
      | (h', Return v) \<Rightarrow> (h', Return v)
      | (h', Throw e) \<Rightarrow> (h', Throw e))"
  by (induction xs arbitrary: h) (auto split: prod.splits outcome.splits)

lemma exec_block_first_failure:
  assumes "exec_block pre h = (h1, Normal)" and "s h1 = (h2, Throw e)"
  shows "exec_block (pre @ s # post) h = (h2, Throw e)"
  using assms by (simp add: exec_block_append)

subsection \<open>The two handlers\<close>

text \<open>
  Claim C1. When the body of a guarded region raises a \<^verbatim>\<open>pyexception\<close>, the guarded call
  applies that exception's own \<^verbatim>\<open>restore\<close> to the host state the body left and returns
  the sentinel \<open>r\<close> given at the call site.
\<close>

theorem PyCATCH_r_pyexception:
  "body h = (h', Throw (Thrown_pyexception err)) \<Longrightarrow>
   PyCATCH_r pyerror r body h = (restore err h', Return r)"
  by (simp add: PyCATCH_r_def)

theorem PyCATCH_r_pyexception_witness:
  "throw_stmt (Thrown_pyexception
        \<lparr>restore = error_indicator_update (\<lambda>old. Some (PyExc_other ''TypeError'', ''bad argument''))\<rparr>)
     \<lparr>error_indicator = None\<rparr>
   = (\<lparr>error_indicator = None\<rparr>,
      Throw (Thrown_pyexception
        \<lparr>restore = error_indicator_update (\<lambda>old. Some (PyExc_other ''TypeError'', ''bad argument''))\<rparr>)
      :: (int, (host, unit) thrown) outcome)
   \<and> PyCATCH_r PYERROR (- 1 :: int)
     (throw_stmt (Thrown_pyexception
        \<lparr>restore = error_indicator_update (\<lambda>old. Some (PyExc_other ''TypeError'', ''bad argument''))\<rparr>))
     \<lparr>error_indicator = None\<rparr>
   = (\<lparr>error_indicator = Some (PyExc_other ''TypeError'', ''bad argument'')\<rparr>, Return (- 1) :: (int, (host, unit) thrown) outcome)"
  using PyCATCH_r_pyexception
    [where body = "throw_stmt (Thrown_pyexception
        \<lparr>restore = error_indicator_update (\<lambda>old. Some (PyExc_other ''TypeError'', ''bad argument''))\<rparr>)"
       and h = "\<lparr>error_indicator = None\<rparr>" and h' = "\<lparr>error_indicator = None\<rparr>"
       and pyerror = PYERROR and r = "- 1 :: int"]
  by (simp add: throw_stmt_def)

text \<open>
  Claim C2. When the body raises an \<^verbatim>\<open>mlexception\<close>, the guarded call hands
  \<^verbatim>\<open>PyExc_OrangeKernel\<close>, the text of \<^verbatim>\<open>err.what()\<close> and the sentinel \<open>r\<close> to
  \<^verbatim>\<open>PYERROR\<close>; with \<^verbatim>\<open>PYERROR\<close> as the spec describes it, the host error state
  becomes that category with that text, unchanged, and the call returns \<open>r\<close>.
\<close>

theorem PyCATCH_r_mlexception:
  "body h = (h', Throw (Thrown_mlexception err)) \<Longrightarrow>
   PyCATCH_r pyerror r body h = pyerror PyExc_OrangeKernel (what err) r h'
   \<and> PyCATCH_r PYERROR r body h =
       (h'\<lparr>error_indicator := Some (PyExc_OrangeKernel, what err)\<rparr>, Return r)"
  by (simp add: PyCATCH_r_def PYERROR_def)

theorem PyCATCH_r_mlexception_witness:
  "throw_stmt (Thrown_mlexception \<lparr>what = ''singular matrix''\<rparr>) \<lparr>error_indicator = None\<rparr>
     = (\<lparr>error_indicator = None\<rparr>,
        Throw (Thrown_mlexception \<lparr>what = ''singular matrix''\<rparr>) :: (int, (host, unit) thrown) outcome)
   \<and> PyCATCH_r PYERROR (- 1 :: int)
        (throw_stmt (Thrown_mlexception \<lparr>what = ''singular matrix''\<rparr> :: (host, unit) thrown))
        \<lparr>error_indicator = None\<rparr>
     = (\<lparr>error_indicator = Some (PyExc_OrangeKernel, ''singular matrix'')\<rparr>, Return (- 1))"
  using PyCATCH_r_mlexception
    [where body = "throw_stmt (Thrown_mlexception \<lparr>what = ''singular matrix''\<rparr> :: (host, unit) thrown)"
       and h = "\<lparr>error_indicator = None\<rparr>" and h' = "\<lparr>error_indicator = None\<rparr>"
       and pyerror = PYERROR and r = "- 1 :: int"]
  by (simp add: throw_stmt_def PYERROR_def)

text \<open>
  Claim C3. The boundary has exactly two handlers, for \<^verbatim>\<open>pyexception\<close> and for
  \<^verbatim>\<open>mlexception\<close>. A failure of any other kind is not turned into a sentinel: it leaves
  the guarded call as the same failure, with the host state as the body left it.
\<close>

theorem PyCATCH_r_other:
  "body h = (h', Throw (Thrown_other x)) \<Longrightarrow>
   PyCATCH_r pyerror r body h = (h', Throw (Thrown_other x))
   \<and> map_option (\<lambda>(ps, ts). handler_types ts) (function_macro exception_block ''PyCATCH_r'')
       = Some [''pyexception'', ''mlexception'']"
  by (simp add: PyCATCH_r_def exception_block_def)

theorem PyCATCH_r_other_witness:
  "throw_stmt (Thrown_other ''bad_alloc'') \<lparr>error_indicator = None\<rparr>
     = (\<lparr>error_indicator = None\<rparr>,
        Throw (Thrown_other ''bad_alloc'') :: (int, (host, string) thrown) outcome)
   \<and> PyCATCH_r PYERROR (- 1 :: int) (throw_stmt (Thrown_other ''bad_alloc''))
        \<lparr>error_indicator = None\<rparr>
     = (\<lparr>error_indicator = None\<rparr>, Throw (Thrown_other ''bad_alloc''))"
  using PyCATCH_r_other
    [where body = "throw_stmt (Thrown_other ''bad_alloc'')"
       and h = "\<lparr>error_indicator = None\<rparr>" and h' = "\<lparr>error_indicator = None\<rparr>"
       and pyerror = PYERROR and r = "- 1 :: int"]
  by (simp add: throw_stmt_def)

text \<open>
  Claim C4. When the body raises no failure, the guarded call is the body: the value its
  return logic yields, and the host state, are the same with and without the wrapping.
\<close>

theorem PyCATCH_r_success:
  "(\<forall>e. snd (body h) \<noteq> Throw e) \<Longrightarrow> PyCATCH_r pyerror r body h = body h"
  by (cases "body h") (auto simp: PyCATCH_r_def split: outcome.splits thrown.splits)

theorem PyCATCH_r_success_witness:
  "snd (exec_block [update_stmt (error_indicator_update (\<lambda>old. None)), return_stmt (7 :: int)]
          \<lparr>error_indicator = Some (PyExc_other ''KeyError'', ''stale'')\<rparr>
        :: host \<times> (int, (host, unit) thrown) outcome) = Return 7
   \<and> PyCATCH_r PYERROR (- 1)
        (exec_block [update_stmt (error_indicator_update (\<lambda>old. None)), return_stmt (7 :: int)])
        \<lparr>error_indicator = Some (PyExc_other ''KeyError'', ''stale'')\<rparr>
     = (\<lparr>error_indicator = None\<rparr>, Return 7 :: (int, (host, unit) thrown) outcome)"
  using PyCATCH_r_success
    [where body = "exec_block [update_stmt (error_indicator_update (\<lambda>old. None)), return_stmt (7 :: int)]
                     :: (host, int, unit) stmt"
       and h = "\<lparr>error_indicator = Some (PyExc_other ''KeyError'', ''stale'')\<rparr>"
       and pyerror = PYERROR and r = "- 1 :: int"]
  by (simp add: update_stmt_def return_stmt_def)

text \<open>
  Claim C5, as amended. The first failure in a guarded region ends the region at once:
  the statements after it do not run and the region does not run again. The outward
  result is decided by the kind of that failure alone: restore and return \<open>r\<close> for a
  \<^verbatim>\<open>pyexception\<close>, the \<^verbatim>\<open>PYERROR\<close> report for an \<^verbatim>\<open>mlexception\<close>, and for any other
  kind the failure itself, passed on unchanged.
\<close>

theorem first_failure_decides:
  assumes "exec_block pre h = (h1, Normal)" and "s h1 = (h2, Throw e)"
  shows "PyCATCH_r pyerror r (exec_block (pre @ s # post)) h =
     (case e of
        Thrown_pyexception err \<Rightarrow> (restore err h2, Return r)
      | Thrown_mlexception err \<Rightarrow> pyerror PyExc_OrangeKernel (what err) r h2
      | Thrown_other x \<Rightarrow> (h2, Throw (Thrown_other x)))"
proof -
  have "exec_block (pre @ s # post) h = (h2, Throw e)"
    using assms by (rule exec_block_first_failure)
  then show ?thesis
    by (simp add: PyCATCH_r_def split: thrown.splits)
qed

theorem first_failure_decides_witness:
  "PyCATCH_r PYERROR (- 1 :: int)
     (exec_block
        ([update_stmt (error_indicator_update (\<lambda>old. None))] @
         throw_stmt (Thrown_mlexception \<lparr>what = ''singular matrix''\<rparr> :: (host, unit) thrown) #
         [return_stmt 7]))
     \<lparr>error_indicator = Some (PyExc_other ''KeyError'', ''stale'')\<rparr>
   = (\<lparr>error_indicator = Some (PyExc_OrangeKernel, ''singular matrix'')\<rparr>, Return (- 1))"
  using first_failure_decides
    [where pre = "[update_stmt (error_indicator_update (\<lambda>old. None))]"
       and s = "throw_stmt (Thrown_mlexception \<lparr>what = ''singular matrix''\<rparr> :: (host, unit) thrown)"
       and post = "[return_stmt (7 :: int)]"
       and h = "\<lparr>error_indicator = Some (PyExc_other ''KeyError'', ''stale'')\<rparr>"
       and ?h1.0 = "\<lparr>error_indicator = None\<rparr>" and ?h2.0 = "\<lparr>error_indicator = None\<rparr>"
       and e = "Thrown_mlexception \<lparr>what = ''singular matrix''\<rparr>"
       and pyerror = PYERROR and r = "- 1 :: int"]
  by (simp add: update_stmt_def throw_stmt_def PYERROR_def)

text \<open>
  Claim C5 as stated lets every failure end in one of the two translated outcomes. A
  failure that matches neither handler ends in neither: no sentinel is returned.
\<close>

theorem unrecognized_failure_counterexample:
  "PyCATCH_r PYERROR (- 1 :: int) (exec_block [throw_stmt (Thrown_other ''bad_alloc'')])
     \<lparr>error_indicator = None\<rparr>
   = (\<lparr>error_indicator = None\<rparr>, Throw (Thrown_other ''bad_alloc''))
   \<and> snd (PyCATCH_r PYERROR (- 1 :: int) (exec_block [throw_stmt (Thrown_other ''bad_alloc'')])
          \<lparr>error_indicator = None\<rparr>)
     \<noteq> Return (- 1)"
  by (simp add: PyCATCH_r_def throw_stmt_def)

subsection \<open>The forms with a fixed sentinel\<close>

text \<open>
  Claim C9. \<^verbatim>\<open>PyCATCH\<close> and \<^verbatim>\<open>PyCATCH_1\<close> are object-like macros that call
  \<^verbatim>\<open>PyCATCH_r\<close> with a fixed argument, \<^verbatim>\<open>PYNULL\<close>, defined as \<^verbatim>\<open>((PyObject *)NULL)\<close>,
  and \<^verbatim>\<open>-1\<close>; only \<^verbatim>\<open>PyCATCH_r\<close> has a parameter. Accordingly, whatever failure the
  body raises, the sentinel that \<^verbatim>\<open>PyCATCH\<close> returns or hands to \<^verbatim>\<open>PYERROR\<close> is
  \<^verbatim>\<open>PYNULL\<close>, and that of \<^verbatim>\<open>PyCATCH_1\<close> is \<open>-1\<close>.
\<close>

theorem fixed_sentinels:
  assumes "body h = (h', Throw e)" and "body1 g = (g', Throw e1)"
  shows "PyCATCH pyerror body h =
      (case e of
         Thrown_pyexception err \<Rightarrow> (restore err h', Return PYNULL)
       | Thrown_mlexception err \<Rightarrow> pyerror PyExc_OrangeKernel (what err) PYNULL h'
       | Thrown_other x \<Rightarrow> (h', Throw (Thrown_other x)))
    \<and> PyCATCH_1 pyerror1 body1 g =
      (case e1 of
         Thrown_pyexception err \<Rightarrow> (restore err g', Return (- 1))
       | Thrown_mlexception err \<Rightarrow> pyerror1 PyExc_OrangeKernel (what err) (- 1) g'
       | Thrown_other x \<Rightarrow> (g', Throw (Thrown_other x)))
    \<and> object_macro exception_block ''PYNULL'' =
        Some [''('', ''('', ''PyObject'', ''*'', '')'', ''NULL'', '')'']
    \<and> object_macro exception_block ''PyCATCH'' = Some [''PyCATCH_r'', ''('', ''PYNULL'', '')'']
    \<and> object_macro exception_block ''PyCATCH_1'' = Some [''PyCATCH_r'', ''('', ''-'', ''1'', '')'']
    \<and> function_macro exception_block ''PyCATCH'' = None
    \<and> function_macro exception_block ''PyCATCH_1'' = None
    \<and> map_option fst (function_macro exception_block ''PyCATCH_r'') = Some [''r'']"
proof -
  have run: "PyCATCH pyerror body h =
      (case e of
         Thrown_pyexception err \<Rightarrow> (restore err h', Return PYNULL)
       | Thrown_mlexception err \<Rightarrow> pyerror PyExc_OrangeKernel (what err) PYNULL h'
       | Thrown_other x \<Rightarrow> (h', Throw (Thrown_other x)))"
    using assms(1) by (simp add: PyCATCH_def PyCATCH_r_def split: thrown.splits)
  have run1: "PyCATCH_1 pyerror1 body1 g =
      (case e1 of
         Thrown_pyexception err \<Rightarrow> (restore err g', Return (- 1))
       | Thrown_mlexception err \<Rightarrow> pyerror1 PyExc_OrangeKernel (what err) (- 1) g'
       | Thrown_other x \<Rightarrow> (g', Throw (Thrown_other x)))"
    using assms(2) by (simp add: PyCATCH_1_def PyCATCH_r_def split: thrown.splits)
  have macros: "object_macro exception_block ''PYNULL'' =
        Some [''('', ''('', ''PyObject'', ''*'', '')'', ''NULL'', '')'']"
    "object_macro exception_block ''PyCATCH'' = Some [''PyCATCH_r'', ''('', ''PYNULL'', '')'']"
    "object_macro exception_block ''PyCATCH_1'' = Some [''PyCATCH_r'', ''('', ''-'', ''1'', '')'']"
    "function_macro exception_block ''PyCATCH'' = None"
    "function_macro exception_block ''PyCATCH_1'' = None"
    "map_option fst (function_macro exception_block ''PyCATCH_r'') = Some [''r'']"
    by (simp_all add: exception_block_def)
  from run run1 macros show ?thesis by simp
qed

theorem fixed_sentinels_witness:
  "PyCATCH PYERROR
     (throw_stmt (Thrown_mlexception \<lparr>what = ''singular matrix''\<rparr> :: (host, unit) thrown))
     \<lparr>error_indicator = None\<rparr>
   = (\<lparr>error_indicator = Some (PyExc_OrangeKernel, ''singular matrix'')\<rparr>,
      Return (NULL :: nat PyObject_ptr))
   \<and> PyCATCH_1 PYERROR
     (throw_stmt (Thrown_pyexception
        \<lparr>restore = error_indicator_update (\<lambda>old. Some (PyExc_other ''TypeError'', ''bad argument''))\<rparr>
        :: (host, unit) thrown))
     \<lparr>error_indicator = None\<rparr>
   = (\<lparr>error_indicator = Some (PyExc_other ''TypeError'', ''bad argument'')\<rparr>, Return (- 1))"
  using fixed_sentinels
    [where body = "throw_stmt (Thrown_mlexception \<lparr>what = ''singular matrix''\<rparr> :: (host, unit) thrown)
                     :: (host, nat PyObject_ptr, unit) stmt"
       and h = "\<lparr>error_indicator = None\<rparr>" and h' = "\<lparr>error_indicator = None\<rparr>"
       and e = "Thrown_mlexception \<lparr>what = ''singular matrix''\<rparr>"
       and pyerror = PYERROR
       and ?body1.0 = "throw_stmt (Thrown_pyexception
        \<lparr>restore = error_indicator_update (\<lambda>old. Some (PyExc_other ''TypeError'', ''bad argument''))\<rparr>
        :: (host, unit) thrown)"
       and g = "\<lparr>error_indicator = None\<rparr>" and g' = "\<lparr>error_indicator = None\<rparr>"
       and ?e1.0 = "Thrown_pyexception
        \<lparr>restore = error_indicator_update (\<lambda>old. Some (PyExc_other ''TypeError'', ''bad argument''))\<rparr>"
       and ?pyerror1.0 = PYERROR]
  by (simp add: throw_stmt_def PYERROR_def PYNULL_def)

end
